theory Spec2Isabelle
  imports Complex_Main "HOL-Library.Sublist" "HOL-Library.Log_Nat"
begin

section \<open>Python strings\<close>

text \<open>
  A Python \<open>str\<close> is modelled as a \<open>string\<close>, one \<open>char\<close> per code point below 256.
  The containment test \<open>p in s\<close> of two strings is \<^const>\<open>sublist\<close> \<open>p s\<close>
  (a contiguous occurrence).
\<close>

definition NL :: char where
  "NL = CHR 0x0A"

definition SP :: char where
  "SP = CHR 0x20"

text \<open>\<open>str.isspace\<close> on one code point below 256, as \<open>rstrip()\<close> and \<open>rsplit()\<close> use it.\<close>

definition py_isspace :: "char \<Rightarrow> bool" where
  "py_isspace c \<longleftrightarrow>
     c \<in> set [CHR 0x09, CHR 0x0A, CHR 0x0B, CHR 0x0C, CHR 0x0D,
               CHR 0x1C, CHR 0x1D, CHR 0x1E, CHR 0x1F, CHR 0x20, CHR 0x85, CHR 0xA0]"

text \<open>\<open>s.rstrip()\<close>\<close>

definition rstrip :: "string \<Rightarrow> string" where
  "rstrip s = rev (dropWhile py_isspace (rev s))"

text \<open>\<open>s.lstrip(' ')\<close>\<close>

definition lstrip_sp :: "string \<Rightarrow> string" where
  "lstrip_sp s = dropWhile (\<lambda>c. c = SP) s"

text \<open>\<open>s.replace(a, b)\<close> for one-character \<open>a\<close> and \<open>b\<close>\<close>

definition replace_char :: "char \<Rightarrow> char \<Rightarrow> string \<Rightarrow> string" where
  "replace_char a b s = map (\<lambda>c. if c = a then b else c) s"

text \<open>\<open>' ' * n\<close>; a negative count gives the empty string.\<close>

definition spaces :: "int \<Rightarrow> string" where
  "spaces n = replicate (nat n) SP"

text \<open>\<open>text.split('\n')\<close>: never empty, one more piece than there are newlines.\<close>

fun split_nl :: "string \<Rightarrow> string list" where
  "split_nl [] = [[]]"
| "split_nl (c # cs) =
     (let r = split_nl cs in if c = NL then [] # r else (c # hd r) # tl r)"

text \<open>
  \<open>s.replace(old, new)\<close>: every occurrence of \<open>old\<close>, found left to right without
  overlap. For the empty \<open>old\<close> Python inserts \<open>new\<close> before every character and at the end.
\<close>

fun replace_from :: "string \<Rightarrow> string \<Rightarrow> string \<Rightarrow> string" where
  "replace_from old new [] = []"
| "replace_from old new (c # cs) =
     (if prefix old (c # cs) then new @ replace_from old new (drop (length old - 1) cs)
      else c # replace_from old new cs)"

definition py_replace :: "string \<Rightarrow> string \<Rightarrow> string \<Rightarrow> string" where
  "py_replace old new s =
     (if old = [] then new @ concat (map (\<lambda>c. c # new) s) else replace_from old new s)"

text \<open>
  \<open>s.rsplit(maxsplit=1)\<close>: split at the last run of whitespace. The last token is cut off,
  the whitespace before it is dropped, and what remains (with its leading whitespace) is
  the first piece; a string with one token gives one piece, a blank string none.
\<close>

definition rsplit1 :: "string \<Rightarrow> string list" where
  "rsplit1 s =
     (let r = dropWhile py_isspace (rev s);
          tok = rev (takeWhile (\<lambda>c. \<not> py_isspace c) r);
          rest = rev (dropWhile py_isspace (dropWhile (\<lambda>c. \<not> py_isspace c) r))
      in if r = [] then [] else if rest = [] then [tok] else [rest, tok])"

text \<open>\<open>str(i)\<close> for an integer\<close>

definition digit_char :: "nat \<Rightarrow> char" where
  "digit_char d = ''0123456789'' ! d"

fun str_nat :: "nat \<Rightarrow> string" where
  "str_nat n = (if n < 10 then [digit_char n] else str_nat (n div 10) @ [digit_char (n mod 10)])"

declare str_nat.simps [simp del]

definition str_int :: "int \<Rightarrow> string" where
  "str_int i = (if i < 0 then CHR ''-'' # str_nat (nat (- i)) else str_nat (nat i))"

section \<open>Python floats: \<open>float(s)\<close> and the format \<open>{:g}\<close>\<close>

text \<open>
  A float is a binary64 value: a sign (\<open>True\<close> for negative) with a magnitude
  \<open>m * 2 ^ e\<close>, an infinity, or a quiet NaN. Parsing rounds the decimal numeral to the
  nearest binary64 value, ties to the even mantissa; the format \<open>g\<close> rounds the exact
  binary value to six significant decimal digits, ties to even. All arithmetic is exact,
  on fractions of natural numbers.
\<close>

datatype pyfloat = Finite bool nat int | Infinite bool | NaN

datatype error =
    InvalidConfiguration
  | UnpackError
  | FloatError string

text \<open>
  \<open>InvalidConfiguration\<close> is the \<open>ValueError('spacing must be > 1')\<close> of \<open>get_rules\<close>,
  \<open>UnpackError\<close> the \<open>ValueError\<close> of \<open>line, val = line.rsplit(maxsplit=1)\<close> when the
  split has fewer than two pieces, \<open>FloatError v\<close> the \<open>ValueError\<close> of \<open>float(v)\<close>.
\<close>

text \<open>The quotient \<open>n / d\<close> rounded to the nearest natural number, ties to even.\<close>

definition round_div :: "nat \<Rightarrow> nat \<Rightarrow> nat" where
  "round_div n d =
     (let q = n div d; r = n mod d
      in if 2 * r < d then q else if d < 2 * r then q + 1 else if even q then q else q + 1)"

text \<open>The fraction \<open>n / d\<close> times \<open>b ^ k\<close>, for an integer \<open>k\<close>.\<close>

definition scale :: "nat \<Rightarrow> int \<Rightarrow> nat \<times> nat \<Rightarrow> nat \<times> nat" where
  "scale b k f = (if 0 \<le> k then (fst f * b ^ nat k, snd f) else (fst f, snd f * b ^ nat (- k)))"

text \<open>\<open>\<lfloor>log\<^bsub>b\<^esub> (n / d)\<rfloor>\<close> for a positive fraction.\<close>

definition floor_log :: "nat \<Rightarrow> nat \<times> nat \<Rightarrow> int" where
  "floor_log b f =
     (let k = int (floorlog b (fst f)) - int (floorlog b (snd f));
          g = scale b (- k) f
      in if snd g \<le> fst g then k else k - 1)"

text \<open>
  The binary64 value nearest to the positive fraction \<open>f\<close>: 53 bits of mantissa for a
  normal number, steps of \<open>2 ^ - 1074\<close> below \<open>2 ^ - 1022\<close>, infinity from the midpoint
  between the largest finite value and \<open>2 ^ 1024\<close> on.
\<close>

definition to_double :: "bool \<Rightarrow> nat \<times> nat \<Rightarrow> pyfloat" where
  "to_double sg f =
     (let E = max (floor_log 2 f) (- 1022);
          g = scale 2 (52 - E) f;
          M = round_div (fst g) (snd g)
      in if 1023 < E \<or> (E = 1023 \<and> M = 2 ^ 53) then Infinite sg else Finite sg M (E - 52))"

subsection \<open>\<open>float(s)\<close>\<close>

definition float_isspace :: "char \<Rightarrow> bool" where
  "float_isspace c \<longleftrightarrow>
     c \<in> set [CHR 0x09, CHR 0x0A, CHR 0x0B, CHR 0x0C, CHR 0x0D, CHR 0x20, CHR 0x85, CHR 0xA0]"

definition is_digit :: "char \<Rightarrow> bool" where
  "is_digit c \<longleftrightarrow> c \<in> set ''0123456789''"

definition digit_val :: "char \<Rightarrow> nat" where
  "digit_val c = of_char c - 48"

definition nat_of_digits :: "string \<Rightarrow> nat" where
  "nat_of_digits ds = foldl (\<lambda>a c. 10 * a + digit_val c) 0 ds"

text \<open>An underscore is accepted only between two digits; \<open>prev\<close> is the character before.\<close>

fun underscores_ok :: "char \<Rightarrow> string \<Rightarrow> bool" where
  "underscores_ok prev [] = (prev \<noteq> CHR ''_'')"
| "underscores_ok prev (c # cs) =
     ((if c = CHR ''_'' then is_digit prev
       else if prev = CHR ''_'' then is_digit c else True)
      \<and> underscores_ok c cs)"

definition ascii_lower :: "char \<Rightarrow> char" where
  "ascii_lower c =
     (if 65 \<le> (of_char c :: nat) \<and> (of_char c :: nat) \<le> 90 then char_of (of_char c + 32 :: nat) else c)"

text \<open>
  The decimal numeral \<open>digits [. digits] [(e|E) [+|-] digits]\<close> with a digit before the
  exponent: its digits read as one natural number, and the power of ten that scales it.
\<close>

definition parse_decimal :: "string \<Rightarrow> (nat \<times> int) option" where
  "parse_decimal s =
     (let ip = takeWhile is_digit s;
          r1 = dropWhile is_digit s;
          dot = (r1 \<noteq> [] \<and> hd r1 = CHR ''.'');
          fp = (if dot then takeWhile is_digit (tl r1) else []);
          r2 = (if dot then dropWhile is_digit (tl r1) else r1)
      in if ip = [] \<and> fp = [] then None
         else if r2 = [] then Some (nat_of_digits (ip @ fp), - int (length fp))
         else if hd r2 = CHR ''e'' \<or> hd r2 = CHR ''E'' then
           (let r3 = tl r2;
                neg = (r3 \<noteq> [] \<and> hd r3 = CHR ''-'');
                r4 = (if r3 \<noteq> [] \<and> (hd r3 = CHR ''-'' \<or> hd r3 = CHR ''+'') then tl r3 else r3)
            in if r4 \<noteq> [] \<and> list_all is_digit r4
               then Some (nat_of_digits (ip @ fp),
                      (if neg then - int (nat_of_digits r4) else int (nat_of_digits r4))
                        - int (length fp))
               else None)
         else None)"

definition py_float :: "string \<Rightarrow> error + pyfloat" where
  "py_float s =
     (let t = rev (dropWhile float_isspace (rev (dropWhile float_isspace s)));
          u = filter (\<lambda>c. c \<noteq> CHR ''_'') t;
          sg = (u \<noteq> [] \<and> hd u = CHR ''-'');
          v = (if u \<noteq> [] \<and> (hd u = CHR ''-'' \<or> hd u = CHR ''+'') then tl u else u);
          w = map ascii_lower v
      in if \<not> underscores_ok (CHR 0x00) t then Inl (FloatError s)
         else if w = ''inf'' \<or> w = ''infinity'' then Inr (Infinite sg)
         else if w = ''nan'' then Inr NaN
         else (case parse_decimal v of
                 None \<Rightarrow> Inl (FloatError s)
               | Some (m, e) \<Rightarrow>
                   Inr (if m = 0 then Finite sg 0 0 else to_double sg (scale 10 e (m, 1)))))"

subsection \<open>\<open>'{:g}'.format(x)\<close>\<close>

text \<open>
  The six significant digits of a positive fraction, as a number from \<open>100000\<close> to
  \<open>999999\<close>, with the decimal exponent of the rounded value.
\<close>

definition g_digits :: "nat \<times> nat \<Rightarrow> nat \<times> int" where
  "g_digits f =
     (let X = floor_log 10 f;
          g = scale 10 (5 - X) f;
          m = round_div (fst g) (snd g)
      in if m = 1000000 then (100000, X + 1) else (m, X))"

definition strip_zeros :: "string \<Rightarrow> string" where
  "strip_zeros ds = rev (dropWhile (\<lambda>c. c = CHR ''0'') (rev ds))"

text \<open>
  The layout of \<open>g\<close> with precision 6: scientific for a decimal exponent below \<open>-4\<close> or from
  6 on, fixed otherwise; trailing zeros and a trailing point are removed; the exponent has
  a sign and at least two digits.
\<close>

definition g_layout :: "nat \<times> int \<Rightarrow> string" where
  "g_layout p =
     (let ds = str_nat (fst p); X = snd p
      in if X < - 4 \<or> 6 \<le> X then
           (let fr = strip_zeros (tl ds); ex = str_nat (nat \<bar>X\<bar>)
            in hd ds # (if fr = [] then [] else CHR ''.'' # fr)
               @ CHR ''e'' # (if X < 0 then CHR ''-'' else CHR ''+'')
               # (if length ex < 2 then CHR ''0'' # ex else ex))
         else if 0 \<le> X then
           (let fr = strip_zeros (drop (nat X + 1) ds)
            in take (nat X + 1) ds @ (if fr = [] then [] else CHR ''.'' # fr))
         else ''0.'' @ replicate (nat (- X - 1)) (CHR ''0'') @ strip_zeros ds)"

definition format_g :: "pyfloat \<Rightarrow> string" where
  "format_g x =
     (case x of
        NaN \<Rightarrow> ''nan''
      | Infinite sg \<Rightarrow> (if sg then ''-inf'' else ''inf'')
      | Finite sg m e \<Rightarrow>
          (if sg then ''-'' else [])
          @ (if m = 0 then ''0'' else g_layout (g_digits (scale 2 e (m, 1)))))"

section \<open>The translator (\<open>tree_to_sas.py\<close>)\<close>

text \<open>\<open>get_front_add(count, n_spaces)\<close>\<close>

definition get_front_add :: "int \<Rightarrow> nat \<Rightarrow> string" where
  "get_front_add count n_spaces =
     (if count mod 2 = 0 then ''END;'' @ [NL] @ spaces (int n_spaces + 2) @ ''ELSE IF ''
      else ''IF '')"

text \<open>
  The state of the loop of \<open>translate_text_to_sas\<close>. The keys of \<open>dict_space_count\<close> are
  the strings \<open>str(n_spaces)\<close> in the source; \<open>str\<close> is one-to-one on the natural
  numbers, so the model keeps the number as the key. \<open>current_elseif_count\<close> is the Python
  list: \<open>append\<close> adds at the end, \<open>[-1]\<close> is \<^const>\<open>last\<close>, \<open>pop()\<close> is \<^const>\<open>butlast\<close>.
\<close>

record tstate =
  dict_space_count :: "nat \<Rightarrow> int option"
  current_elseif_count :: "nat list"
  sas_rules :: string

text \<open>\<open>line.rstrip().replace('|', ' ').replace('-', ' ')\<close>\<close>

definition normalize_line :: "string \<Rightarrow> string" where
  "normalize_line raw = replace_char (CHR ''-'') SP (replace_char (CHR ''|'') SP (rstrip raw))"

text \<open>\<open>len(line) - len(line.lstrip(' '))\<close>\<close>

definition n_spaces_of :: "string \<Rightarrow> nat" where
  "n_spaces_of line = length line - length (lstrip_sp line)"

text \<open>
  The value of \<open>dict_space_count[str(n_spaces)]\<close> after lines 71 to 76: set to 1 for a new
  key and incremented otherwise, then decremented when \<open>'class'\<close> is in the line.
\<close>

definition new_count :: "(nat \<Rightarrow> int option) \<Rightarrow> string \<Rightarrow> int" where
  "new_count d line =
     (let c = (case d (n_spaces_of line) of None \<Rightarrow> 1 | Some c \<Rightarrow> c + 1)
      in if sublist ''class'' line then c - 1 else c)"

text \<open>
  The loop of lines 82 to 86 on the stack and \<open>add_end_front\<close>. The source enters it only
  with a non-empty list and leaves it by \<open>break\<close> when the list becomes empty.
\<close>

function pop_loop :: "nat \<Rightarrow> nat list \<Rightarrow> string \<Rightarrow> nat list \<times> string" where
  "pop_loop n stk add =
     (if stk \<noteq> [] \<and> n < last stk then pop_loop n (butlast stk) (add @ ''END;'' @ [NL])
      else (stk, add))"
  by pat_completeness auto
termination
  by (relation "measure (\<lambda>(n, stk, add). length stk)") auto

declare pop_loop.simps [simp del]

text \<open>Lines 78 to 86: the stack after the pops, and \<open>add_end_front\<close>.\<close>

definition close_blocks :: "nat \<Rightarrow> nat list \<Rightarrow> nat list \<times> string" where
  "close_blocks n stk =
     (if stk \<noteq> [] then (if n < last stk then pop_loop n stk [] else (stk, []))
      else (stk, []))"

text \<open>Lines 87 and 88: the push.\<close>

definition push_block :: "string \<Rightarrow> string \<Rightarrow> nat \<Rightarrow> nat list \<Rightarrow> nat list" where
  "push_block front_add line n stk =
     (if sublist ''ELSE'' front_add \<and> \<not> sublist ''class'' line then stk @ [n] else stk)"

text \<open>Lines 90 to 93: the condition branch.\<close>

definition has_operator :: "string \<Rightarrow> bool" where
  "has_operator line \<longleftrightarrow> sublist ''<'' line \<or> sublist ''>'' line"

definition condition_branch :: "string \<Rightarrow> string \<Rightarrow> error + string" where
  "condition_branch front_add line =
     (if has_operator line then
        (case rsplit1 line of
           [h, val] \<Rightarrow>
             (case py_float val of
                Inl e \<Rightarrow> Inl e
              | Inr x \<Rightarrow>
                  Inr (py_replace (spaces (int (n_spaces_of line)))
                         (spaces (int (n_spaces_of line)) @ front_add) h
                       @ '' '' @ format_g x @ '' THEN DO;''))
         | _ \<Rightarrow> Inl UnpackError)
      else Inr line)"

text \<open>Lines 95 to 97: the leaf branch, on the line as the condition branch left it.\<close>

definition predicted_value :: "int \<Rightarrow> string" where
  "predicted_value tree_id = ''PREDICTED_VALUE_'' @ str_int (tree_id + 1) @ '' =''"

definition leaf_branch :: "int \<Rightarrow> string \<Rightarrow> string" where
  "leaf_branch tree_id line =
     (if sublist ''class'' line
      then py_replace ''class:'' (predicted_value tree_id) line @ '';''
      else line)"

text \<open>
  The locals \<open>front_add\<close> and \<open>add_end_front\<close> of the iteration that starts in state
  \<open>st\<close> with the normalized line \<open>line\<close>.
\<close>

definition front_add_of :: "tstate \<Rightarrow> string \<Rightarrow> string" where
  "front_add_of st line = get_front_add (new_count (dict_space_count st) line) (n_spaces_of line)"

definition add_end_front_of :: "tstate \<Rightarrow> string \<Rightarrow> string" where
  "add_end_front_of st line = snd (close_blocks (n_spaces_of line) (current_elseif_count st))"

text \<open>
  The text one iteration appends after \<open>skip\<close>: \<open>add_end_front + line\<close>, or the exception
  of the condition branch.
\<close>

definition emit_line :: "int \<Rightarrow> tstate \<Rightarrow> string \<Rightarrow> error + string" where
  "emit_line tree_id st raw =
     (let line = normalize_line raw
      in case condition_branch (front_add_of st line) line of
           Inl e \<Rightarrow> Inl e
         | Inr line1 \<Rightarrow> Inr (add_end_front_of st line @ leaf_branch tree_id line1))"

text \<open>One iteration of the loop of lines 67 to 99.\<close>

definition translate_line :: "int \<Rightarrow> string \<Rightarrow> tstate \<Rightarrow> string \<Rightarrow> error + tstate" where
  "translate_line tree_id skip st raw =
     (let line = normalize_line raw;
          n_spaces = n_spaces_of line;
          stk = fst (close_blocks n_spaces (current_elseif_count st))
      in case emit_line tree_id st raw of
           Inl e \<Rightarrow> Inl e
         | Inr out \<Rightarrow>
             Inr \<lparr> dict_space_count =
                     (dict_space_count st)(n_spaces \<mapsto> new_count (dict_space_count st) line),
                   current_elseif_count = push_block (front_add_of st line) line n_spaces stk,
                   sas_rules = sas_rules st @ skip @ out @ [NL] \<rparr>)"

fun translate_lines :: "int \<Rightarrow> string \<Rightarrow> tstate \<Rightarrow> string list \<Rightarrow> error + tstate" where
  "translate_lines tree_id skip st [] = Inr st"
| "translate_lines tree_id skip st (raw # raws) =
     (case translate_line tree_id skip st raw of
        Inl e \<Rightarrow> Inl e
      | Inr st' \<Rightarrow> translate_lines tree_id skip st' raws)"

definition header :: "int \<Rightarrow> string \<Rightarrow> string" where
  "header tree_id sas_table =
     ''DATA DECISION_TREE_'' @ str_int (tree_id + 1) @ '';'' @ [NL]
     @ ''SET '' @ sas_table @ '';'' @ [NL]"

definition init_state :: "int \<Rightarrow> string \<Rightarrow> tstate" where
  "init_state tree_id sas_table =
     \<lparr> dict_space_count = Map.empty, current_elseif_count = [],
       sas_rules = header tree_id sas_table \<rparr>"

text \<open>
  \<open>translate_text_to_sas(tree, tree_id, sas_table, features, text, spacing)\<close>; \<open>tree\<close> and
  \<open>features\<close> are not used by the source. \<open>sas_rules[:-1]\<close> is \<^const>\<open>butlast\<close>.
\<close>

definition translate_text_to_sas ::
  "'t \<Rightarrow> int \<Rightarrow> string \<Rightarrow> 'f \<Rightarrow> string \<Rightarrow> int \<Rightarrow> error + string" where
  "translate_text_to_sas tree tree_id sas_table features text spacing =
     (case translate_lines tree_id (spaces spacing) (init_state tree_id sas_table) (split_nl text) of
        Inl e \<Rightarrow> Inl e
      | Inr st \<Rightarrow> Inr (butlast (sas_rules st) @ ''RUN;''))"

text \<open>
  \<open>get_rules(tree, tree_id, features, sas_table, max_depth, spacing)\<close>. The renderer
  \<open>sklearn.tree.export_text\<close> is not part of the sources: it is the parameter
  \<open>export_text\<close>, called with the tree, the feature names, \<open>max_depth\<close>, \<open>decimals\<close> and
  \<open>spacing\<close>. What it raises passes through \<open>get_rules\<close> unchanged, as \<open>Inl\<close> of the sum.
\<close>

definition get_rules ::
  "('t \<Rightarrow> 'f \<Rightarrow> int \<Rightarrow> int \<Rightarrow> int \<Rightarrow> 'e + string)
     \<Rightarrow> 't \<Rightarrow> int \<Rightarrow> 'f \<Rightarrow> string \<Rightarrow> int \<Rightarrow> int \<Rightarrow> ('e + error) + string" where
  "get_rules export_text tree tree_id features sas_table max_depth spacing =
     (if spacing < 2 then Inl (Inr InvalidConfiguration)
      else (case export_text tree features max_depth 6 (spacing - 1) of
              Inl e \<Rightarrow> Inl (Inl e)
            | Inr rules \<Rightarrow>
                (case translate_text_to_sas tree tree_id sas_table features rules spacing of
                   Inl e \<Rightarrow> Inl (Inr e)
                 | Inr rules_in_sas \<Rightarrow> Inr rules_in_sas)))"

section \<open>Observing a run\<close>

text \<open>
  The states in which the iterations of the loop start, one per line, up to and with the
  iteration that raises.
\<close>

fun states :: "int \<Rightarrow> string \<Rightarrow> tstate \<Rightarrow> string list \<Rightarrow> tstate list" where
  "states tree_id skip st [] = []"
| "states tree_id skip st (raw # raws) =
     st # (case translate_line tree_id skip st raw of
             Inl e \<Rightarrow> []
           | Inr st' \<Rightarrow> states tree_id skip st' raws)"

text \<open>The text that the iteration starting in \<open>st\<close> with the raw line \<open>raw\<close> appends after \<open>skip\<close>.\<close>

definition chunk :: "int \<Rightarrow> tstate \<Rightarrow> string \<Rightarrow> string" where
  "chunk tree_id st raw = (case emit_line tree_id st raw of Inl e \<Rightarrow> [] | Inr out \<Rightarrow> out)"

text \<open>A counted line is one without \<open>'class'\<close>; the depth of a line is its \<open>n_spaces\<close>.\<close>

definition counted :: "string \<Rightarrow> bool" where
  "counted raw \<longleftrightarrow> \<not> sublist ''class'' (normalize_line raw)"

definition depth :: "string \<Rightarrow> nat" where
  "depth raw = n_spaces_of (normalize_line raw)"

definition counted_at :: "nat \<Rightarrow> string list \<Rightarrow> nat" where
  "counted_at n raws = length (filter (\<lambda>r. counted r \<and> depth r = n) raws)"

definition count_at :: "tstate \<Rightarrow> nat \<Rightarrow> int" where
  "count_at st n = (case dict_space_count st n of None \<Rightarrow> 0 | Some c \<Rightarrow> c)"

text \<open>
  What one iteration does to the stack: the number of \<open>pop()\<close> calls of lines 82 to 86, and
  whether line 88 appends (1) or not (0).
\<close>

definition pops :: "tstate \<Rightarrow> string \<Rightarrow> nat" where
  "pops st raw =
     length (current_elseif_count st)
       - length (fst (close_blocks (depth raw) (current_elseif_count st)))"

definition pushes :: "tstate \<Rightarrow> string \<Rightarrow> nat" where
  "pushes st raw =
     (if sublist ''ELSE'' (front_add_of st (normalize_line raw))
         \<and> \<not> sublist ''class'' (normalize_line raw) then 1 else 0)"

text \<open>The sum of a per-iteration number over the iterations of a run.\<close>

fun run_total :: "(tstate \<Rightarrow> string \<Rightarrow> nat) \<Rightarrow> int \<Rightarrow> string \<Rightarrow> tstate \<Rightarrow> string list \<Rightarrow> nat" where
  "run_total f tree_id skip st [] = 0"
| "run_total f tree_id skip st (raw # raws) =
     f st raw + (case translate_line tree_id skip st raw of
                   Inl e \<Rightarrow> 0
                 | Inr st' \<Rightarrow> run_total f tree_id skip st' raws)"

section \<open>A rendered tree\<close>

text \<open>
  The rendering of a tree with two splits, as the renderer prints it for \<open>spacing = 2\<close>
  (one glyph column per level) and six decimals; a text ends with a newline, so its last
  piece is empty.
\<close>

definition example_lines :: "string list" where
  "example_lines =
     [''|- a <= 1.500000'',
      ''| |- class: 0'',
      ''|- a >  1.500000'',
      ''| |- b <= 0.000010'',
      ''| | |- class: 1'',
      ''| |- b >  0.000010'',
      ''| | |- class: 2'',
      []]"

definition example_text :: string where
  "example_text = concat (map (\<lambda>l. l @ [NL]) (butlast example_lines))"

definition example_output :: string where
  "example_output =
     ''DATA DECISION_TREE_1;'' @ [NL]
     @ ''SET T;'' @ [NL]
     @ ''     IF a <= 1.5 THEN DO;'' @ [NL]
     @ ''       PREDICTED_VALUE_1 = 0;'' @ [NL]
     @ ''     END;'' @ [NL]
     @ ''     ELSE IF a > 1.5 THEN DO;'' @ [NL]
     @ ''       IF b <= 1e-05 THEN DO;'' @ [NL]
     @ ''         PREDICTED_VALUE_1 = 1;'' @ [NL]
     @ ''       END;'' @ [NL]
     @ ''       ELSE IF b > 1e-05 THEN DO;'' @ [NL]
     @ ''         PREDICTED_VALUE_1 = 2;'' @ [NL]
     @ ''  END;'' @ [NL]
     @ ''END;'' @ [NL]
     @ ''RUN;''"

section \<open>Rules for evaluating on literals\<close>

lemma floorlog_numeral:
  "floorlog b (numeral k) = (if 1 < b then floorlog b (numeral k div b) + 1 else 0)"
  "floorlog b 0 = 0"
  "floorlog b (Suc 0) = (if 1 < b then 1 else 0)"
  by (subst compute_floorlog, simp)+

lemma str_nat_numeral:
  "str_nat (numeral k) =
     (if numeral k < (10::nat) then [digit_char (numeral k)]
      else str_nat (numeral k div 10) @ [digit_char (numeral k mod 10)])"
  "str_nat 0 = ''0''"
  "str_nat (Suc 0) = ''1''"
  by (subst str_nat.simps, simp add: digit_char_def)+

lemma pop_loop_eval:
  "pop_loop n [] add = ([], add)"
  "pop_loop n (x # xs) add =
     (if n < last (x # xs) then pop_loop n (butlast (x # xs)) (add @ ''END;'' @ [NL])
      else (x # xs, add))"
  by (subst pop_loop.simps, simp)+

lemma replicate_numeral: "replicate (numeral k) x = x # replicate (pred_numeral k) x"
  by (simp add: numeral_eq_Suc)

lemma Suc_Suc_0: "Suc (Suc 0) = 2"
  by simp

lemma butlast_literal:
  "butlast [x] = []"
  "butlast (x # y # ys) = x # butlast (y # ys)"
  by simp_all

lemmas num_eval = to_double_def g_digits_def scale_def floor_log_def round_div_def
  floorlog_numeral Let_def

lemmas parse_eval = py_float_def float_isspace_def parse_decimal_def is_digit_def
  nat_of_digits_def digit_val_def ascii_lower_def Let_def

lemmas layout_eval = g_layout_def strip_zeros_def str_nat_numeral digit_char_def Let_def

lemmas string_eval = normalize_line_def rstrip_def replace_char_def py_isspace_def SP_def NL_def
  n_spaces_of_def lstrip_sp_def spaces_def replicate_numeral sublist_Cons_right rsplit1_def
  py_replace_def str_int_def str_nat_numeral digit_char_def Let_def Suc_Suc_0

lemmas line_eval = translate_line_def emit_line_def condition_branch_def leaf_branch_def
  predicted_value_def front_add_of_def add_end_front_of_def new_count_def get_front_add_def
  close_blocks_def push_block_def has_operator_def pop_loop_eval

lemma float_1_5: "py_float ''1.500000'' = Inr (Finite False 6755399441055744 (- 52))"
  by (simp add: parse_eval) (simp add: num_eval)

lemma format_1_5: "format_g (Finite False 6755399441055744 (- 52)) = ''1.5''"
  by (simp add: format_g_def) (simp add: num_eval, simp add: layout_eval)

lemma float_1em5: "py_float ''0.000010'' = Inr (Finite False 5902958103587057 (- 69))"
  by (simp add: parse_eval) (simp add: num_eval)

lemma format_1em5: "format_g (Finite False 5902958103587057 (- 69)) = ''1e-05''"
  by (simp add: format_g_def) (simp add: num_eval, simp add: layout_eval)

lemmas example_eval = line_eval string_eval float_1_5 format_1_5 float_1em5 format_1em5
  init_state_def header_def

section \<open>Errors\<close>

lemma py_float_error: "py_float s = Inl e \<Longrightarrow> e = FloatError s"
  by (auto simp: py_float_def Let_def split: if_splits option.splits)

lemma condition_branch_error:
  "condition_branch fa line = Inl e \<Longrightarrow> e \<noteq> InvalidConfiguration"
  by (auto simp: condition_branch_def split: if_splits list.splits sum.splits dest: py_float_error)

lemma translate_line_error:
  "translate_line tid skip st raw = Inl e \<Longrightarrow> e \<noteq> InvalidConfiguration"
  by (auto simp: translate_line_def emit_line_def Let_def split: sum.splits
      dest: condition_branch_error)

lemma translate_lines_error:
  "translate_lines tid skip st raws = Inl e \<Longrightarrow> e \<noteq> InvalidConfiguration"
  by (induction raws arbitrary: st) (auto split: sum.splits dest: translate_line_error)

lemma translate_text_error:
  "translate_text_to_sas tree tid tab fs text spacing = Inl e \<Longrightarrow> e \<noteq> InvalidConfiguration"
  by (auto simp: translate_text_to_sas_def split: sum.splits dest: translate_lines_error)

text \<open>
  Claim C4. A call of \<open>get_rules\<close> with \<open>spacing < 2\<close> raises the invalid-configuration
  error whatever the renderer would do (it is not called, and nothing is returned); with
  \<open>spacing \<ge> 2\<close> that error is never the outcome, neither from the renderer (whose
  exceptions are the left summand) nor from the translation.
\<close>

theorem get_rules_invalid_configuration:
  "(spacing < 2 \<longrightarrow>
      get_rules export_text tree tree_id features sas_table max_depth spacing
        = Inl (Inr InvalidConfiguration))
   \<and> (2 \<le> spacing \<longrightarrow>
      get_rules export_text tree tree_id features sas_table max_depth spacing
        \<noteq> Inl (Inr InvalidConfiguration))"
  by (auto simp: get_rules_def split: sum.splits dest: translate_text_error)

theorem get_rules_invalid_configuration_witness:
  "get_rules (\<lambda>t f m d s. Inr ''|- class: 0'' :: unit + string) () 0 () ''T'' 100 1
     = Inl (Inr InvalidConfiguration)
   \<and> get_rules (\<lambda>t f m d s. Inr ''|- class: 0'' :: unit + string) () 0 () ''T'' 100 2
     \<noteq> Inl (Inr InvalidConfiguration)"
  using get_rules_invalid_configuration
          [of 1 "\<lambda>t f m d s. Inr ''|- class: 0'' :: unit + string" "()" 0 "()" "''T''" 100]
        get_rules_invalid_configuration
          [of 2 "\<lambda>t f m d s. Inr ''|- class: 0'' :: unit + string" "()" 0 "()" "''T''" 100]
  by simp

section \<open>The depth-occurrence counter\<close>

lemma translate_line_dict:
  "translate_line tid skip st raw = Inr st' \<Longrightarrow>
   dict_space_count st' =
     (dict_space_count st)(depth raw \<mapsto> new_count (dict_space_count st) (normalize_line raw))"
  by (auto simp: translate_line_def Let_def depth_def split: sum.splits)

lemma new_count_count_at:
  "new_count (dict_space_count st) (normalize_line raw) =
     count_at st (depth raw) + (if counted raw then 1 else 0)"
  by (simp add: new_count_def count_at_def counted_def depth_def split: option.splits)

lemma translate_line_count_at:
  assumes "translate_line tid skip st raw = Inr st'"
  shows "count_at st' n = count_at st n + (if counted raw \<and> depth raw = n then 1 else 0)"
proof (cases "depth raw = n")
  case True
  with translate_line_dict [OF assms] new_count_count_at [of st raw]
  show ?thesis by (simp add: count_at_def)
next
  case False
  with translate_line_dict [OF assms] show ?thesis by (simp add: count_at_def)
qed

lemma counted_at_Cons:
  "counted_at n (r # rs) = (if counted r \<and> depth r = n then 1 else 0) + counted_at n rs"
  by (simp add: counted_at_def)

lemma translate_lines_count_at:
  "translate_lines tid skip st raws = Inr st' \<Longrightarrow>
   count_at st' n = count_at st n + int (counted_at n raws)"
proof (induction raws arbitrary: st)
  case Nil
  then show ?case by (simp add: counted_at_def)
next
  case (Cons r rs)
  from Cons.prems obtain s1 where s1: "translate_line tid skip st r = Inr s1"
    and rest: "translate_lines tid skip s1 rs = Inr st'"
    by (auto split: sum.splits)
  from Cons.IH [OF rest] translate_line_count_at [OF s1, of n]
  show ?case by (simp add: counted_at_Cons)
qed

lemma count_at_init: "count_at (init_state tid tab) n = 0"
  by (simp add: count_at_def init_state_def)

lemma translate_lines_append:
  "translate_lines tid skip st (xs @ ys) =
     (case translate_lines tid skip st xs of
        Inl e \<Rightarrow> Inl e
      | Inr s \<Rightarrow> translate_lines tid skip s ys)"
  by (induction xs arbitrary: st) (auto split: sum.splits)

lemma counted_at_append: "counted_at n (xs @ ys) = counted_at n xs + counted_at n ys"
  by (simp add: counted_at_def)

lemma get_front_add_IF: "get_front_add c n = ''IF '' \<longleftrightarrow> odd c"
  by (auto simp: get_front_add_def odd_iff_mod_2_eq_one even_iff_mod_2_eq_zero)

text \<open>
  Claim C1. After any lines \<open>raws\<close> have been processed, a counted line \<open>raw\<close> (one
  without \<open>'class'\<close>) is given the count of the counted lines seen at its depth so far, plus
  one for itself, and its role prefix is fixed by the parity of that count alone: \<open>'IF '\<close>
  for an odd count, \<open>'END;'\<close>, a newline and \<open>'ELSE IF '\<close> behind \<open>n_spaces + 2\<close> spaces
  for an even one. Hence two successive counted lines of one depth (\<open>r\<close> and \<open>raw\<close>, with no
  counted line of that depth between them) have different roles.
\<close>

theorem role_prefix_by_parity:
  assumes run: "translate_lines tree_id skip (init_state tree_id sas_table) raws = Inr st"
    and cnt: "counted raw"
  shows "new_count (dict_space_count st) (normalize_line raw) = int (counted_at (depth raw) raws) + 1
    \<and> front_add_of st (normalize_line raw) =
        (if odd (new_count (dict_space_count st) (normalize_line raw)) then ''IF ''
         else ''END;'' @ [NL] @ spaces (int (depth raw) + 2) @ ''ELSE IF '')
    \<and> (\<forall>A r B s. raws = A @ r # B \<and> counted r \<and> depth r = depth raw
           \<and> counted_at (depth raw) B = 0
           \<and> translate_lines tree_id skip (init_state tree_id sas_table) A = Inr s
         \<longrightarrow> (front_add_of s (normalize_line r) = ''IF '') \<noteq> (front_add_of st (normalize_line raw) = ''IF ''))"
proof (intro conjI allI impI)
  show c: "new_count (dict_space_count st) (normalize_line raw) = int (counted_at (depth raw) raws) + 1"
    using translate_lines_count_at [OF run, of "depth raw"] cnt
    by (simp add: new_count_count_at count_at_init)
  show "front_add_of st (normalize_line raw) =
        (if odd (new_count (dict_space_count st) (normalize_line raw)) then ''IF ''
         else ''END;'' @ [NL] @ spaces (int (depth raw) + 2) @ ''ELSE IF '')"
    by (simp add: front_add_of_def get_front_add_def depth_def odd_iff_mod_2_eq_one)
  fix A r B s
  assume h: "raws = A @ r # B \<and> counted r \<and> depth r = depth raw
           \<and> counted_at (depth raw) B = 0
           \<and> translate_lines tree_id skip (init_state tree_id sas_table) A = Inr s"
  then have "new_count (dict_space_count s) (normalize_line r) = int (counted_at (depth raw) A) + 1"
    using translate_lines_count_at [of tree_id skip "init_state tree_id sas_table" A s "depth raw"]
    by (simp add: new_count_count_at count_at_init)
  moreover from h have "counted_at (depth raw) raws = counted_at (depth raw) A + 1"
    by (simp add: counted_at_append counted_at_Cons)
  ultimately have "new_count (dict_space_count st) (normalize_line raw)
      = new_count (dict_space_count s) (normalize_line r) + 1"
    using c by simp
  then show "(front_add_of s (normalize_line r) = ''IF '') \<noteq> (front_add_of st (normalize_line raw) = ''IF '')"
    using h by (simp add: front_add_of_def get_front_add_IF depth_def)
qed


lemma example_run_2:
  "translate_lines 0 ''  '' (init_state 0 ''T'') [''|- a <= 1.500000'', ''| |- class: 0'']
     = Inr \<lparr> dict_space_count = [3 \<mapsto> 1, 5 \<mapsto> 0], current_elseif_count = [],
             sas_rules = header 0 ''T'' @ ''     IF a <= 1.5 THEN DO;'' @ [NL]
                         @ ''       PREDICTED_VALUE_1 = 0;'' @ [NL] \<rparr>"
  by (simp add: example_eval cong: let_weak_cong)

theorem role_prefix_by_parity_witness:
  "translate_lines 0 ''  '' (init_state 0 ''T'') [''|- a <= 1.500000'', ''| |- class: 0'']
     = Inr \<lparr> dict_space_count = [3 \<mapsto> 1, 5 \<mapsto> 0], current_elseif_count = [],
             sas_rules = header 0 ''T'' @ ''     IF a <= 1.5 THEN DO;'' @ [NL]
                         @ ''       PREDICTED_VALUE_1 = 0;'' @ [NL] \<rparr>
   \<and> counted ''|- a >  1.500000''
   \<and> new_count [3 \<mapsto> 1, 5 \<mapsto> 0] (normalize_line ''|- a >  1.500000'') = 2
   \<and> front_add_of \<lparr> dict_space_count = [3 \<mapsto> 1, 5 \<mapsto> 0], current_elseif_count = [],
             sas_rules = header 0 ''T'' @ ''     IF a <= 1.5 THEN DO;'' @ [NL]
                         @ ''       PREDICTED_VALUE_1 = 0;'' @ [NL] \<rparr>
         (normalize_line ''|- a >  1.500000'')
       = ''END;'' @ [NL] @ ''     ELSE IF ''
   \<and> front_add_of (init_state 0 ''T'') (normalize_line ''|- a <= 1.500000'') = ''IF ''"
proof -
  let ?st = "\<lparr> dict_space_count = [3 \<mapsto> 1, 5 \<mapsto> 0], current_elseif_count = [],
             sas_rules = header 0 ''T'' @ ''     IF a <= 1.5 THEN DO;'' @ [NL]
                         @ ''       PREDICTED_VALUE_1 = 0;'' @ [NL] \<rparr>"
  let ?raws = "[''|- a <= 1.500000'', ''| |- class: 0'']"
  have cnt: "counted ''|- a >  1.500000''"
    by (simp add: counted_def string_eval)
  have d3: "depth ''|- a >  1.500000'' = 3" and d1: "depth ''|- a <= 1.500000'' = 3"
    by (simp_all add: depth_def string_eval)
  have c1: "counted ''|- a <= 1.500000''"
    by (simp add: counted_def string_eval)
  have n: "counted_at 3 ?raws = 1" "counted_at 3 [''| |- class: 0''] = 0"
    by (simp_all add: counted_at_def counted_def depth_def string_eval)
  have i: "translate_lines 0 ''  '' (init_state 0 ''T'') [] = Inr (init_state 0 ''T'')"
    by simp
  note inst = role_prefix_by_parity [OF example_run_2 cnt]
  from inst have "new_count [3 \<mapsto> 1, 5 \<mapsto> 0] (normalize_line ''|- a >  1.500000'') = 2"
    by (simp add: d3 n)
  moreover from inst have "front_add_of ?st (normalize_line ''|- a >  1.500000'')
      = ''END;'' @ [NL] @ ''     ELSE IF ''"
    by (simp add: d3 n spaces_def SP_def replicate_numeral)
  moreover from inst have "(front_add_of (init_state 0 ''T'') (normalize_line ''|- a <= 1.500000'') = ''IF '')
      \<noteq> (front_add_of ?st (normalize_line ''|- a >  1.500000'') = ''IF '')"
    using c1 d1 d3 n i by (metis append_Nil)
  ultimately show ?thesis
    using example_run_2 cnt by simp
qed

section \<open>The emitted text\<close>

lemma translate_line_sas:
  "translate_line tid skip st raw = Inr st' \<Longrightarrow>
   sas_rules st' = sas_rules st @ skip @ chunk tid st raw @ [NL]"
  by (auto simp: translate_line_def chunk_def Let_def split: sum.splits)

lemma run_output:
  "translate_lines tid skip st raws = Inr st' \<Longrightarrow>
   length (states tid skip st raws) = length raws
   \<and> sas_rules st' = sas_rules st
        @ concat (map (\<lambda>(s, raw). skip @ chunk tid s raw @ [NL]) (zip (states tid skip st raws) raws))"
proof (induction raws arbitrary: st)
  case Nil
  then show ?case by simp
next
  case (Cons r rs)
  from Cons.prems obtain s1 where s1: "translate_line tid skip st r = Inr s1"
    and rest: "translate_lines tid skip s1 rs = Inr st'"
    by (auto split: sum.splits)
  from Cons.IH [OF rest] translate_line_sas [OF s1] s1
  show ?case by simp
qed

lemma split_nl_nonempty: "split_nl s \<noteq> []"
  by (cases s) (auto simp: Let_def)

lemma pop_loop_eq:
  "pop_loop n stk add =
     (rev (dropWhile (\<lambda>x. n < x) (rev stk)),
      add @ concat (replicate (length (takeWhile (\<lambda>x. n < x) (rev stk))) (''END;'' @ [NL])))"
proof (induction n stk add rule: pop_loop.induct)
  case (1 n stk add)
  show ?case
  proof (cases "stk \<noteq> [] \<and> n < last stk")
    case True
    then obtain ys y where stk: "stk = ys @ [y]" and y: "n < y"
      by (metis append_butlast_last_id last_snoc)
    from "1.IH" [OF True] stk y show ?thesis
      by (subst pop_loop.simps) (simp add: replicate_append_same)
  next
    case False
    then have "stk = [] \<or> (\<exists>ys y. stk = ys @ [y] \<and> \<not> n < y)"
      by (metis append_butlast_last_id last_snoc)
    then show ?thesis
      by (subst pop_loop.simps) auto
  qed
qed

lemma close_blocks_eq:
  "close_blocks n stk =
     (rev (dropWhile (\<lambda>x. n < x) (rev stk)),
      concat (replicate (length (takeWhile (\<lambda>x. n < x) (rev stk))) (''END;'' @ [NL])))"
proof (cases "stk = []")
  case True
  then show ?thesis by (simp add: close_blocks_def)
next
  case False
  then obtain ys y where stk: "stk = ys @ [y]"
    by (metis append_butlast_last_id)
  then show ?thesis
    by (simp add: close_blocks_def pop_loop_eq)
qed

section \<open>The open-block stack\<close>

lemma translate_line_stack:
  "translate_line tid skip st raw = Inr st' \<Longrightarrow>
   current_elseif_count st' =
     rev (dropWhile (\<lambda>x. depth raw < x) (rev (current_elseif_count st)))
     @ (if pushes st raw = 1 then [depth raw] else [])"
  by (auto simp: translate_line_def Let_def close_blocks_eq push_block_def pushes_def depth_def
      split: sum.splits)

lemma pops_eq: "pops st raw = length (takeWhile (\<lambda>x. depth raw < x) (rev (current_elseif_count st)))"
proof -
  have "length (rev (current_elseif_count st)) =
      length (takeWhile (\<lambda>x. depth raw < x) (rev (current_elseif_count st)))
      + length (dropWhile (\<lambda>x. depth raw < x) (rev (current_elseif_count st)))"
    by (metis length_append takeWhile_dropWhile_id)
  then show ?thesis
    by (simp add: pops_def close_blocks_eq)
qed

lemma translate_line_stack_length:
  assumes "translate_line tid skip st raw = Inr st'"
  shows "length (current_elseif_count st') + pops st raw
       = length (current_elseif_count st) + pushes st raw"
proof -
  have "length (rev (current_elseif_count st)) =
      length (takeWhile (\<lambda>x. depth raw < x) (rev (current_elseif_count st)))
      + length (dropWhile (\<lambda>x. depth raw < x) (rev (current_elseif_count st)))"
    by (metis length_append takeWhile_dropWhile_id)
  with translate_line_stack [OF assms] show ?thesis
    by (auto simp: pops_eq pushes_def)
qed

lemma run_stack_length:
  "translate_lines tid skip st raws = Inr st' \<Longrightarrow>
   length (current_elseif_count st') + run_total pops tid skip st raws
     = length (current_elseif_count st) + run_total pushes tid skip st raws"
proof (induction raws arbitrary: st)
  case Nil
  then show ?case by simp
next
  case (Cons r rs)
  from Cons.prems obtain s1 where s1: "translate_line tid skip st r = Inr s1"
    and rest: "translate_lines tid skip s1 rs = Inr st'"
    by (auto split: sum.splits)
  from Cons.IH [OF rest] translate_line_stack_length [OF s1] s1
  show ?case by simp
qed

lemma run_total_append:
  "translate_lines tid skip st xs = Inr s \<Longrightarrow>
   run_total f tid skip st (xs @ ys) = run_total f tid skip st xs + run_total f tid skip s ys"
  by (induction xs arbitrary: st) (auto split: sum.splits)

lemma translate_line_stack_pos:
  assumes "translate_line tid skip st raw = Inr st'"
    and "\<forall>x\<in>set (current_elseif_count st). 0 < x" and "0 < depth raw"
  shows "\<forall>x\<in>set (current_elseif_count st'). 0 < x"
proof -
  have "set (dropWhile (\<lambda>x. depth raw < x) (rev (current_elseif_count st)))
      \<subseteq> set (current_elseif_count st)"
    using set_dropWhileD by fastforce
  with translate_line_stack [OF assms(1)] assms(2,3) show ?thesis
    by (auto split: if_splits)
qed

lemma run_stack_pos:
  "translate_lines tid skip st raws = Inr st' \<Longrightarrow>
   \<forall>x\<in>set (current_elseif_count st). 0 < x \<Longrightarrow> \<forall>r\<in>set raws. 0 < depth r \<Longrightarrow>
   \<forall>x\<in>set (current_elseif_count st'). 0 < x"
proof (induction raws arbitrary: st)
  case Nil
  then show ?case by simp
next
  case (Cons r rs)
  from Cons.prems(1) obtain s1 where s1: "translate_line tid skip st r = Inr s1"
    and rest: "translate_lines tid skip s1 rs = Inr st'"
    by (auto split: sum.splits)
  from translate_line_stack_pos [OF s1] Cons.prems have "\<forall>x\<in>set (current_elseif_count s1). 0 < x"
    by simp
  from Cons.IH [OF rest this] Cons.prems(3) show ?case by simp
qed

lemma depth_Nil: "depth [] = 0" and counted_Nil: "counted []"
  by (simp_all add: depth_def counted_def normalize_line_def rstrip_def replace_char_def
      n_spaces_of_def lstrip_sp_def)

lemma sublist_ELSE_front_add: "sublist ''ELSE'' (get_front_add c n) \<longleftrightarrow> even c"
proof (cases "c mod 2 = 0")
  case True
  have "sublist ''ELSE'' ((''END;'' @ [NL] @ spaces (int n + 2)) @ ''ELSE'' @ '' IF '')"
    by (rule sublist_appendI)
  with True show ?thesis by (simp add: get_front_add_def even_iff_mod_2_eq_zero)
next
  case False
  then show ?thesis
    by (simp add: get_front_add_def even_iff_mod_2_eq_zero sublist_Cons_right)
qed

lemma sublist_END_front_add: "sublist ''END;'' (get_front_add c n) \<longleftrightarrow> even c"
proof (cases "c mod 2 = 0")
  case True
  have "sublist ''END;'' ([] @ ''END;'' @ ([NL] @ spaces (int n + 2) @ ''ELSE IF ''))"
    by (rule sublist_appendI)
  with True show ?thesis by (simp add: get_front_add_def even_iff_mod_2_eq_zero)
next
  case False
  then show ?thesis
    by (simp add: get_front_add_def even_iff_mod_2_eq_zero sublist_Cons_right)
qed

lemma final_line_closes:
  assumes run: "translate_line tid skip st [] = Inr st'"
    and pos: "\<forall>x\<in>set (current_elseif_count st). 0 < x"
    and cnt: "even (count_at st 0)"
  shows "current_elseif_count st' = []"
proof -
  have "dropWhile (\<lambda>x. 0 < x) (rev (current_elseif_count st)) = []"
    using pos by simp
  moreover have "pushes st [] = 0"
    using cnt new_count_count_at [of st "[]"]
    by (simp add: pushes_def front_add_of_def sublist_ELSE_front_add depth_Nil counted_Nil)
  ultimately show ?thesis
    using translate_line_stack [OF run] by (simp add: depth_Nil)
qed

text \<open>
  The stack at the end of a run. Take a text that ends with a newline (its last piece is
  empty) and whose other lines are indented by at least one column, and let the translation
  succeed. Then the stack is empty at the end, so there are as many pops as pushes over the
  run; an iteration pops exactly the entries at the top that are greater than the line's
  \<open>n_spaces\<close> and writes one \<open>END;\<close> line for each.
\<close>

lemma stack_emptied:
  assumes ok: "translate_text_to_sas tree tree_id sas_table features text spacing = Inr out"
    and pieces: "split_nl text = raws @ [[]]"
    and pos: "\<forall>r\<in>set raws. 0 < depth r"
  shows "\<exists>st. translate_lines tree_id (spaces spacing) (init_state tree_id sas_table) (split_nl text)
             = Inr st
    \<and> current_elseif_count st = []
    \<and> run_total pops tree_id (spaces spacing) (init_state tree_id sas_table) (split_nl text)
        = run_total pushes tree_id (spaces spacing) (init_state tree_id sas_table) (split_nl text)
    \<and> (\<forall>s raw. pops s raw = length (takeWhile (\<lambda>x. depth raw < x) (rev (current_elseif_count s)))
          \<and> fst (close_blocks (depth raw) (current_elseif_count s))
                = rev (dropWhile (\<lambda>x. depth raw < x) (rev (current_elseif_count s)))
          \<and> add_end_front_of s (normalize_line raw) = concat (replicate (pops s raw) (''END;'' @ [NL])))"
proof -
  let ?skip = "spaces spacing" and ?init = "init_state tree_id sas_table"
  from ok obtain st where run: "translate_lines tree_id ?skip ?init (split_nl text) = Inr st"
    by (auto simp: translate_text_to_sas_def split: sum.splits)
  from run pieces obtain s where s: "translate_lines tree_id ?skip ?init raws = Inr s"
    and fin: "translate_line tree_id ?skip s [] = Inr st"
    by (auto simp: translate_lines_append split: sum.splits)
  have init_stack: "current_elseif_count ?init = []"
    by (simp add: init_state_def)
  have s_pos: "\<forall>x\<in>set (current_elseif_count s). 0 < x"
    using run_stack_pos [OF s] pos by (simp add: init_stack)
  have "counted_at 0 raws = 0"
    using pos by (auto simp: counted_at_def filter_empty_conv)
  then have s_even: "even (count_at s 0)"
    using translate_lines_count_at [OF s, of 0] by (simp add: count_at_init)
  have empty: "current_elseif_count st = []"
    using final_line_closes [OF fin s_pos s_even] .
  have balance: "run_total pops tree_id ?skip ?init (split_nl text)
      = run_total pushes tree_id ?skip ?init (split_nl text)"
    using run_stack_length [OF run] by (simp add: empty init_stack)
  have per_line: "pops u raw = length (takeWhile (\<lambda>x. depth raw < x) (rev (current_elseif_count u)))
      \<and> fst (close_blocks (depth raw) (current_elseif_count u))
            = rev (dropWhile (\<lambda>x. depth raw < x) (rev (current_elseif_count u)))
      \<and> add_end_front_of u (normalize_line raw) = concat (replicate (pops u raw) (''END;'' @ [NL]))"
    for u raw
    by (simp add: pops_eq close_blocks_eq add_end_front_of_def depth_def)
  from run empty balance per_line show ?thesis
    by blast
qed

lemma example_split: "split_nl example_text = example_lines"
  by (simp add: example_text_def example_lines_def NL_def cong: let_weak_cong)

lemma example_run:
  "translate_lines 0 (spaces 2) (init_state 0 ''T'') example_lines
     = Inr \<lparr> dict_space_count = [3 \<mapsto> 2, 5 \<mapsto> 2, 7 \<mapsto> 0, 0 \<mapsto> 1],
             current_elseif_count = [],
             sas_rules = ''DATA DECISION_TREE_1;\<newline>SET T;\<newline>     IF a <= 1.5 THEN DO;\<newline>       PREDICTED_VALUE_1 = 0;\<newline>     END;\<newline>     ELSE IF a > 1.5 THEN DO;\<newline>       IF b <= 1e-05 THEN DO;\<newline>         PREDICTED_VALUE_1 = 1;\<newline>       END;\<newline>       ELSE IF b > 1e-05 THEN DO;\<newline>         PREDICTED_VALUE_1 = 2;\<newline>  END;\<newline>END;\<newline>\<newline>'' \<rparr>"
  by (simp add: example_lines_def example_eval cong: let_weak_cong)

lemma example_translation:
  "translate_text_to_sas () 0 ''T'' () example_text 2 = Inr example_output"
  by (simp add: translate_text_to_sas_def example_split example_run butlast_literal
      example_output_def NL_def del: butlast.simps)

end
